theory Spec2Isabelle
  imports Complex_Main "HOL-Library.Word"
begin

section \<open>MultilayerPerceptron: the architecture queries of multilayer\_perceptron.h\<close>

text \<open>
  The queries are inline member functions of the header, so their bodies are the
  source embedded here. Sizes and indices are \<open>size_t\<close>, taken as 64-bit words:
  subtraction wraps around, comparison is unsigned.
\<close>

type_synonym size_t = "64 word"

text \<open>
  \<open>PerceptronLayer\<close> is declared in perceptron\_layer.h, which is not among the
  sources. The queries only read two numbers of a layer, through
  \<open>get_inputs_number()\<close> and \<open>get_perceptrons_number()\<close>; a layer is the record
  of those two numbers.
\<close>

record PerceptronLayer =
  get_inputs_number :: size_t
  get_perceptrons_number :: size_t

record MultilayerPerceptron =
  layers :: "PerceptronLayer list"
  display :: bool

text \<open>
  \<open>Vector<T>\<close> (vector.h, not among the sources) is a \<open>std::vector<T>\<close>.
  Asking for more elements than the container's \<open>max_size()\<close> throws
  \<open>std::length_error\<close>; an index outside the vector is undefined behaviour of
  \<open>operator[]\<close>, which the model stops at with \<open>OutOfRange\<close>. The value of
  \<open>max_size()\<close> depends on the platform and is a parameter \<open>mx\<close> of every
  function that allocates.
\<close>

datatype error = LengthError | OutOfRange

text \<open>\<open>Vector<size_t> v(n)\<close>: \<open>n\<close> value-initialised elements.\<close>

definition Vector :: "nat \<Rightarrow> size_t \<Rightarrow> error + size_t list" where
  "Vector mx n = (if mx < unat n then Inl LengthError else Inr (replicate (unat n) 0))"

text \<open>\<open>v.resize(n)\<close>: the first \<open>n\<close> elements are kept, new ones are zero.\<close>

definition resize :: "nat \<Rightarrow> size_t \<Rightarrow> size_t list \<Rightarrow> error + size_t list" where
  "resize mx n v =
     (if mx < unat n then Inl LengthError
      else Inr (take (unat n) v @ replicate (unat n - length v) 0))"

text \<open>\<open>return(layers.size());\<close>\<close>

definition get_layers_number :: "MultilayerPerceptron \<Rightarrow> size_t" where
  "get_layers_number m = of_nat (length (layers m))"

text \<open>
  The loop of \<open>arrange_layers_perceptrons_numbers\<close>:
  \<^verbatim>\<open>for(size_t i = 0; i < layers_number; i++)
     layers_perceptrons_number[i] = layers[i].get_perceptrons_number();\<close>
\<close>

function arrange_layers_perceptrons_numbers_loop ::
  "size_t \<Rightarrow> size_t \<Rightarrow> PerceptronLayer list \<Rightarrow> size_t list \<Rightarrow> error + size_t list" where
  "arrange_layers_perceptrons_numbers_loop i layers_number ls layers_perceptrons_number =
     (if i < layers_number then
        (if unat i < length ls \<and> unat i < length layers_perceptrons_number then
           arrange_layers_perceptrons_numbers_loop (i + 1) layers_number ls
             (layers_perceptrons_number[unat i := get_perceptrons_number (ls ! unat i)])
         else Inl OutOfRange)
      else Inr layers_perceptrons_number)"
  by pat_completeness auto
termination
proof (relation "measure (\<lambda>(i, n, ls, v). unat n - unat i)")
  show "wf (measure (\<lambda>(i, n, ls, v). unat n - unat i))"
    by simp
next
  fix i layers_number :: size_t
  fix ls :: "PerceptronLayer list" and v :: "size_t list"
  assume "i < layers_number"
  then have less: "unat i < unat layers_number"
    by (simp add: word_less_nat_alt)
  moreover have "unat layers_number < 2 ^ LENGTH(64)"
    by (rule unsigned_less)
  ultimately have "unat i + unat (1 :: size_t) < 2 ^ LENGTH(64)"
    by (simp only: unat_1)
  then have "unat (i + 1) = unat i + unat (1 :: size_t)"
    by (simp only: unat_add_lem)
  with less show
    "((i + 1, layers_number, ls,
        v[unat i := get_perceptrons_number (ls ! unat i)]),
      (i, layers_number, ls, v))
     \<in> measure (\<lambda>(i, n, ls, v). unat n - unat i)"
    by simp
qed

declare arrange_layers_perceptrons_numbers_loop.simps [simp del]

definition arrange_layers_perceptrons_numbers ::
  "nat \<Rightarrow> MultilayerPerceptron \<Rightarrow> error + size_t list" where
  "arrange_layers_perceptrons_numbers mx m =
     (let layers_number = get_layers_number m in
      case Vector mx layers_number of
        Inl e \<Rightarrow> Inl e
      | Inr layers_perceptrons_number \<Rightarrow>
          arrange_layers_perceptrons_numbers_loop 0 layers_number (layers m)
            layers_perceptrons_number)"

text \<open>
  The loop of \<open>arrange_complexity\<close>:
  \<^verbatim>\<open>for(size_t i = 0; i < layers_number-1; i++)
     complexity[i] = layers_size[i];\<close>
  Its bound \<open>layers_number-1\<close> is passed as \<open>n\<close>.
\<close>

function arrange_complexity_loop ::
  "size_t \<Rightarrow> size_t \<Rightarrow> size_t list \<Rightarrow> size_t list \<Rightarrow> error + size_t list" where
  "arrange_complexity_loop i n layers_size complexity =
     (if i < n then
        (if unat i < length layers_size \<and> unat i < length complexity then
           arrange_complexity_loop (i + 1) n layers_size
             (complexity[unat i := layers_size ! unat i])
         else Inl OutOfRange)
      else Inr complexity)"
  by pat_completeness auto
termination
proof (relation "measure (\<lambda>(i, n, ls, v). unat n - unat i)")
  show "wf (measure (\<lambda>(i, n, ls, v). unat n - unat i))"
    by simp
next
  fix i n :: size_t
  fix ls v :: "size_t list"
  assume "i < n"
  then have less: "unat i < unat n"
    by (simp add: word_less_nat_alt)
  moreover have "unat n < 2 ^ LENGTH(64)"
    by (rule unsigned_less)
  ultimately have "unat i + unat (1 :: size_t) < 2 ^ LENGTH(64)"
    by (simp only: unat_1)
  then have "unat (i + 1) = unat i + unat (1 :: size_t)"
    by (simp only: unat_add_lem)
  with less show
    "((i + 1, n, ls, v[unat i := ls ! unat i]), (i, n, ls, v))
     \<in> measure (\<lambda>(i, n, ls, v). unat n - unat i)"
    by simp
qed

declare arrange_complexity_loop.simps [simp del]

text \<open>
  \<^verbatim>\<open>const size_t layers_number = get_layers_number();
   Vector<size_t> complexity;
   if(layers_number != 1)
   {
      complexity.resize(layers_number-1);
      Vector<size_t> layers_size = arrange_layers_perceptrons_numbers();
      for(...) ...
   }
   return(complexity);\<close>
\<close>

definition arrange_complexity :: "nat \<Rightarrow> MultilayerPerceptron \<Rightarrow> error + size_t list" where
  "arrange_complexity mx m =
     (let layers_number = get_layers_number m;
          complexity = []
      in if layers_number \<noteq> 1 then
           (case resize mx (layers_number - 1) complexity of
              Inl e \<Rightarrow> Inl e
            | Inr complexity \<Rightarrow>
                (case arrange_layers_perceptrons_numbers mx m of
                   Inl e \<Rightarrow> Inl e
                 | Inr layers_size \<Rightarrow>
                     arrange_complexity_loop 0 (layers_number - 1) layers_size complexity))
         else Inr complexity)"

section \<open>LongShortTermMemoryLayer\<close>

text \<open>
  long\_short\_term\_memory\_layer.h declares the class: the enumeration of activation
  functions, the members and the signatures of the member functions. The bodies are in
  long\_short\_term\_memory\_layer.cpp, which is not among the sources. The enumeration
  and the record of members follow the header; every function below is written from
  the specification and says so. Values of \<open>type\<close> (a floating-point type) are
  taken as real numbers.
\<close>

subsection \<open>The declarations of the header\<close>

datatype ActivationFunction =
    Threshold | SymmetricThreshold | Logistic | HyperbolicTangent
  | Linear | RectifiedLinear | ExponentialLinear | ScaledExponentialLinear
  | SoftPlus | SoftSign | HardSigmoid

type_synonym Tensor1 = "real list"
type_synonym Tensor2 = "real list list"

text \<open>
  The members, in the order of the header. A \<open>Tensor<type, 2>\<close> is the list of
  its rows; \<open>timesteps\<close>, an \<open>Index\<close>, is a count and taken as a natural number.
  \<open>batch\<close>, \<open>variables\<close> and \<open>display\<close> play no part in forward
  propagation and are left out.
\<close>

record LongShortTermMemoryLayer =
  timesteps :: nat
  input_biases :: Tensor1
  forget_biases :: Tensor1
  state_biases :: Tensor1
  output_biases :: Tensor1
  input_weights :: Tensor2
  forget_weights :: Tensor2
  state_weights :: Tensor2
  output_weights :: Tensor2
  forget_recurrent_weights :: Tensor2
  input_recurrent_weights :: Tensor2
  state_recurrent_weights :: Tensor2
  output_recurrent_weights :: Tensor2
  activation_function :: ActivationFunction
  recurrent_activation_function :: ActivationFunction
  hidden_states :: Tensor1
  cell_states :: Tensor1

subsection \<open>Forward propagation, from the specification\<close>

text \<open>
  Modelled from the spec: the error taxonomy of section 7; the header declares no
  error type.
\<close>

datatype layer_error = DimensionMismatch | CacheMismatch | InvalidActivationName

text \<open>
  Modelled from the spec: the bodies of \<open>get_inputs_number\<close> and
  \<open>get_neurons_number\<close> are missing. Section 3: \<open>inputs_number = weights.rows\<close>
  and \<open>neurons_number = biases.length\<close>. The first is suffixed, the name being a
  field of \<open>PerceptronLayer\<close> above.
\<close>

definition get_inputs_number_lstm :: "LongShortTermMemoryLayer \<Rightarrow> nat" where
  "get_inputs_number_lstm l = length (input_weights l)"

definition get_neurons_number :: "LongShortTermMemoryLayer \<Rightarrow> nat" where
  "get_neurons_number l = length (input_biases l)"

text \<open>
  Modelled from the spec: the constants of ScaledExponentialLinear, which section 4.1
  gives as \<open>1.0507\<close> and \<open>1.6733\<close>.
\<close>

definition selu_lambda :: real where
  "selu_lambda = 10507 / 10000"

definition selu_alpha :: real where
  "selu_alpha = 16733 / 10000"

text \<open>
  Modelled from the spec: the activation library, whose code is missing. The value of
  each of the eleven activation functions at one element, by the formulas of
  section 4.1.
\<close>

fun activation :: "ActivationFunction \<Rightarrow> real \<Rightarrow> real" where
  "activation Threshold z = (if 0 \<le> z then 1 else 0)"
| "activation SymmetricThreshold z = (if 0 \<le> z then 1 else - 1)"
| "activation Logistic z = 1 / (1 + exp (- z))"
| "activation HyperbolicTangent z = tanh z"
| "activation Linear z = z"
| "activation RectifiedLinear z = max 0 z"
| "activation ExponentialLinear z = (if 0 < z then z else exp z - 1)"
| "activation ScaledExponentialLinear z =
     (if 0 < z then selu_lambda * z else selu_lambda * selu_alpha * (exp z - 1))"
| "activation SoftPlus z = ln (1 + exp z)"
| "activation SoftSign z = z / (1 + \<bar>z\<bar>)"
| "activation HardSigmoid z = max 0 (min 1 (z / 5 + 1 / 2))"

text \<open>
  Modelled from the spec: the bodies of \<open>calculate_activations\<close> and
  \<open>calculate_recurrent_activations\<close> are missing. Section 4.1: the same formula at
  every element; the first uses the layer's activation function, the second its
  recurrent activation function (section 4.3, step 2).
\<close>

definition calculate_activations :: "LongShortTermMemoryLayer \<Rightarrow> Tensor1 \<Rightarrow> Tensor1" where
  "calculate_activations l combinations = map (activation (activation_function l)) combinations"

definition calculate_recurrent_activations ::
  "LongShortTermMemoryLayer \<Rightarrow> Tensor1 \<Rightarrow> Tensor1" where
  "calculate_recurrent_activations l combinations =
     map (activation (recurrent_activation_function l)) combinations"

text \<open>
  Modelled from the spec: the gate combination of section 4.2, whose code is missing:
  \<open>combination = input\<cdot>W + previous_hidden\<cdot>U + b\<close>, with \<open>W\<close> of shape inputs by
  neurons and \<open>U\<close> neurons by neurons (section 3). \<open>vector_matrix x W j\<close> is
  element \<open>j\<close> of \<open>x\<cdot>W\<close>; the previous hidden state is the member
  \<open>hidden_states\<close>.
\<close>

definition vector_matrix :: "Tensor1 \<Rightarrow> Tensor2 \<Rightarrow> nat \<Rightarrow> real" where
  "vector_matrix x W j = sum_list (map2 (\<lambda>xi row. xi * row ! j) x W)"

definition combination ::
  "LongShortTermMemoryLayer \<Rightarrow> Tensor1 \<Rightarrow> Tensor2 \<Rightarrow> Tensor2 \<Rightarrow> Tensor1 \<Rightarrow> Tensor1" where
  "combination l inputs W U b =
     map (\<lambda>j. vector_matrix inputs W j + vector_matrix (hidden_states l) U j + b ! j)
       [0 ..< get_neurons_number l]"

text \<open>
  Modelled from the spec: the bodies of the four \<open>calculate_*_combinations\<close> are
  missing. Their signatures take the inputs, \<open>W\<close>, \<open>U\<close> and \<open>b\<close>; section 4.2
  gives the four gates the same formula.
\<close>

definition calculate_forget_combinations ::
  "LongShortTermMemoryLayer \<Rightarrow> Tensor1 \<Rightarrow> Tensor2 \<Rightarrow> Tensor2 \<Rightarrow> Tensor1 \<Rightarrow> Tensor1" where
  "calculate_forget_combinations l inputs W U b = combination l inputs W U b"

definition calculate_input_combinations ::
  "LongShortTermMemoryLayer \<Rightarrow> Tensor1 \<Rightarrow> Tensor2 \<Rightarrow> Tensor2 \<Rightarrow> Tensor1 \<Rightarrow> Tensor1" where
  "calculate_input_combinations l inputs W U b = combination l inputs W U b"

definition calculate_state_combinations ::
  "LongShortTermMemoryLayer \<Rightarrow> Tensor1 \<Rightarrow> Tensor2 \<Rightarrow> Tensor2 \<Rightarrow> Tensor1 \<Rightarrow> Tensor1" where
  "calculate_state_combinations l inputs W U b = combination l inputs W U b"

definition calculate_output_combinations ::
  "LongShortTermMemoryLayer \<Rightarrow> Tensor1 \<Rightarrow> Tensor2 \<Rightarrow> Tensor2 \<Rightarrow> Tensor1 \<Rightarrow> Tensor1" where
  "calculate_output_combinations l inputs W U b = combination l inputs W U b"

text \<open>
  Modelled from the spec: what one step keeps (section 2, RecurrentCell): the gate
  activations, the cell state and the hidden state of one timestep.
\<close>

record RecurrentCell =
  forget_activations :: Tensor1
  input_activations :: Tensor1
  state_activations :: Tensor1
  output_activations :: Tensor1
  cell_state :: Tensor1
  hidden_state :: Tensor1

text \<open>
  Modelled from the spec: the step of section 4.3. The forget, input and output
  combinations go through the recurrent activation function, the state combination
  through the activation function;
  \<open>new cell = forget \<odot> previous cell + input \<odot> state activation\<close> and
  \<open>new hidden = output \<odot> activation (new cell)\<close>.
\<close>

definition recurrent_step :: "LongShortTermMemoryLayer \<Rightarrow> Tensor1 \<Rightarrow> RecurrentCell" where
  "recurrent_step l inputs =
     (let forget_combinations = calculate_forget_combinations l inputs
            (forget_weights l) (forget_recurrent_weights l) (forget_biases l);
          input_combinations = calculate_input_combinations l inputs
            (input_weights l) (input_recurrent_weights l) (input_biases l);
          state_combinations = calculate_state_combinations l inputs
            (state_weights l) (state_recurrent_weights l) (state_biases l);
          output_combinations = calculate_output_combinations l inputs
            (output_weights l) (output_recurrent_weights l) (output_biases l);
          forget_gate = calculate_recurrent_activations l forget_combinations;
          input_gate = calculate_recurrent_activations l input_combinations;
          state_activation = calculate_activations l state_combinations;
          output_gate = calculate_recurrent_activations l output_combinations;
          new_cell = map2 (+) (map2 (*) forget_gate (cell_states l))
                              (map2 (*) input_gate state_activation);
          new_hidden = map2 (*) output_gate (calculate_activations l new_cell)
      in \<lparr>forget_activations = forget_gate, input_activations = input_gate,
          state_activations = state_activation, output_activations = output_gate,
          cell_state = new_cell, hidden_state = new_hidden\<rparr>)"

text \<open>
  Modelled from the spec: the loop of \<open>forward_propagate\<close>, whose body is missing.
  Section 4.4: the rows of the input are taken one timestep at a time, \<open>timesteps\<close>
  rows to a sequence. Section 4.3: the first step of a sequence reads the configured
  initial states (the members \<open>hidden_states\<close> and \<open>cell_states\<close>), every other
  step the states \<open>h\<close> and \<open>c\<close> of the step before it. \<open>i\<close> is the index of the
  row.
\<close>

fun forward_steps ::
  "LongShortTermMemoryLayer \<Rightarrow> Tensor1 \<Rightarrow> Tensor1 \<Rightarrow> nat \<Rightarrow> Tensor1 list \<Rightarrow> RecurrentCell list" where
  "forward_steps l h c i [] = []"
| "forward_steps l h c i (inputs # rest) =
     (let previous = (if i mod timesteps l = 0 then l
                      else l\<lparr>hidden_states := h, cell_states := c\<rparr>);
          cell = recurrent_step previous inputs
      in cell # forward_steps l (hidden_state cell) (cell_state cell) (Suc i) rest)"

text \<open>
  Modelled from the spec: the body of \<open>forward_propagate\<close> is missing. Section 4.4:
  an input whose width is not the number of inputs is a \<open>DimensionMismatch\<close>;
  otherwise the result is what the steps keep, one entry for every row.
\<close>

definition forward_propagate ::
  "LongShortTermMemoryLayer \<Rightarrow> Tensor2 \<Rightarrow> layer_error + RecurrentCell list" where
  "forward_propagate l inputs =
     (if list_ex (\<lambda>row. length row \<noteq> get_inputs_number_lstm l) inputs
      then Inl DimensionMismatch
      else Inr (forward_steps l (hidden_states l) (cell_states l) 0 inputs))"

subsection \<open>The worked scenario of the specification\<close>

text \<open>
  One input, one neuron, one timestep; activation Linear, recurrent activation
  Logistic; every weight 1, every recurrent weight 0, every bias 0; initial hidden and
  cell state 0.
\<close>

definition scenario_layer :: LongShortTermMemoryLayer where
  "scenario_layer =
     \<lparr>timesteps = 1,
      input_biases = [0], forget_biases = [0], state_biases = [0], output_biases = [0],
      input_weights = [[1]], forget_weights = [[1]], state_weights = [[1]],
      output_weights = [[1]],
      forget_recurrent_weights = [[0]], input_recurrent_weights = [[0]],
      state_recurrent_weights = [[0]], output_recurrent_weights = [[0]],
      activation_function = Linear, recurrent_activation_function = Logistic,
      hidden_states = [0], cell_states = [0]\<rparr>"

section \<open>MultilayerPerceptron: what the queries return\<close>

text \<open>
  An index below a bound can be incremented without wrapping: the step \<open>i++\<close> of a
  loop \<open>for(size_t i = 0; i < n; i++)\<close>.
\<close>

lemma unat_Suc_less:
  fixes i n :: "'a::len word"
  assumes "i < n"
  shows "unat (i + 1) = Suc (unat i)"
proof -
  from assms have "unat i < unat n"
    by (simp add: word_less_nat_alt)
  moreover have "unat n < 2 ^ LENGTH('a)"
    by (rule unsigned_less)
  ultimately have "unat i + unat (1 :: 'a word) < 2 ^ LENGTH('a)"
    by (simp only: unat_1)
  then have "unat (i + 1) = unat i + unat (1 :: 'a word)"
    by (simp only: unat_add_lem)
  then show ?thesis
    by simp
qed

lemma arrange_complexity_loop_copies:
  assumes "unat n \<le> length layers_size" and "unat n \<le> length complexity" and "i \<le> n"
  shows "arrange_complexity_loop i n layers_size complexity =
    Inr (take (unat i) complexity @ take (unat n - unat i) (drop (unat i) layers_size)
         @ drop (unat n) complexity)"
  using assms
proof (induction i n layers_size complexity rule: arrange_complexity_loop.induct)
  case (1 i n layers_size complexity)
  show ?case
  proof (cases "i < n")
    case False
    with "1.prems" have "i = n"
      by simp
    then show ?thesis
      by (simp add: arrange_complexity_loop.simps [of n n])
  next
    case True
    let ?k = "unat i"
    let ?c = "complexity[?k := layers_size ! ?k]"
    from True have k: "?k < unat n"
      by (simp add: word_less_nat_alt)
    from True have suc: "unat (i + 1) = Suc ?k"
      by (rule unat_Suc_less)
    from True have le: "i + 1 \<le> n"
      by (rule inc_le)
    from k "1.prems" have inb: "?k < length layers_size" "?k < length complexity"
      by simp_all
    have step: "arrange_complexity_loop i n layers_size complexity =
        arrange_complexity_loop (i + 1) n layers_size ?c"
      using True inb by (simp add: arrange_complexity_loop.simps [of i n])
    have rest: "arrange_complexity_loop (i + 1) n layers_size ?c =
        Inr (take (Suc ?k) ?c @ take (unat n - Suc ?k) (drop (Suc ?k) layers_size)
         @ drop (unat n) ?c)"
      using "1.IH" [OF True _ _ _ le] inb "1.prems" suc by simp
    have head_eq: "take (Suc ?k) ?c = take ?k complexity @ [layers_size ! ?k]"
      using inb by (simp add: take_Suc_conv_app_nth)
    have tail_eq: "drop (unat n) ?c = drop (unat n) complexity"
      using k by simp
    have mid_eq: "layers_size ! ?k # take (unat n - Suc ?k) (drop (Suc ?k) layers_size)
        = take (unat n - ?k) (drop ?k layers_size)"
    proof -
      from k obtain d where d: "unat n - ?k = Suc d"
        by (metis Suc_diff_Suc)
      then have "unat n - Suc ?k = d"
        by simp
      with d inb show ?thesis
        by (simp add: Cons_nth_drop_Suc [symmetric])
    qed
    show ?thesis
      by (simp only: step rest head_eq tail_eq mid_eq [symmetric] append_assoc append_Cons append_Nil)
  qed
qed

lemma arrange_layers_perceptrons_numbers_loop_map:
  "arrange_layers_perceptrons_numbers_loop i n ls v =
     arrange_complexity_loop i n (map get_perceptrons_number ls) v"
proof (induction i n ls v rule: arrange_layers_perceptrons_numbers_loop.induct)
  case (1 i n ls v)
  show ?case
  proof (cases "i < n \<and> unat i < length ls \<and> unat i < length v")
    case True
    with "1.IH" show ?thesis
      by (simp add: arrange_layers_perceptrons_numbers_loop.simps [of i n]
          arrange_complexity_loop.simps [of i n])
  next
    case False
    then show ?thesis
      by (auto simp add: arrange_layers_perceptrons_numbers_loop.simps [of i n]
          arrange_complexity_loop.simps [of i n])
  qed
qed


lemma get_layers_number_unat:
  assumes "length (layers m) < 2 ^ 64"
  shows "unat (get_layers_number m) = length (layers m)"
  using assms by (simp add: get_layers_number_def unat_of_nat)

lemma arrange_layers_perceptrons_numbers_map:
  assumes "length (layers m) \<le> mx" and "length (layers m) < 2 ^ 64"
  shows "arrange_layers_perceptrons_numbers mx m =
    Inr (map get_perceptrons_number (layers m))"
proof -
  let ?n = "get_layers_number m"
  have n: "unat ?n = length (layers m)"
    using assms(2) by (rule get_layers_number_unat)
  have "arrange_layers_perceptrons_numbers mx m =
      arrange_complexity_loop 0 ?n (map get_perceptrons_number (layers m))
        (replicate (unat ?n) 0)"
    using assms(1) n
    by (simp add: arrange_layers_perceptrons_numbers_def Vector_def
        arrange_layers_perceptrons_numbers_loop_map)
  also have "\<dots> = Inr (map get_perceptrons_number (layers m))"
    using n by (simp add: arrange_complexity_loop_copies)
  finally show ?thesis .
qed

lemma arrange_complexity_one_layer:
  assumes "length (layers m) = 1"
  shows "arrange_complexity mx m = Inr []"
  using assms by (simp add: arrange_complexity_def get_layers_number_def)

lemma arrange_complexity_hidden_layers:
  assumes two: "2 \<le> length (layers m)" and mx: "length (layers m) \<le> mx" and
    len: "length (layers m) < 2 ^ 64"
  shows "arrange_complexity mx m = Inr (butlast (map get_perceptrons_number (layers m)))"
    and "unat (get_layers_number m - 1) = length (layers m) - 1"
proof -
  let ?n = "get_layers_number m"
  let ?sizes = "map get_perceptrons_number (layers m)"
  have n: "unat ?n = length (layers m)"
    using len by (rule get_layers_number_unat)
  have ne0: "?n \<noteq> 0"
  proof
    assume "?n = 0"
    then have "unat ?n = 0"
      by simp
    with n two show False
      by simp
  qed
  have ne1: "?n \<noteq> 1"
  proof
    assume "?n = 1"
    then have "unat ?n = 1"
      by simp
    with n two show False
      by simp
  qed
  from ne0 show n1: "unat (?n - 1) = length (layers m) - 1"
    using n by (simp add: unat_minus_one)
  from mx have fits: "\<not> mx < length (layers m) - 1"
    by arith
  have "arrange_complexity mx m =
      arrange_complexity_loop 0 (?n - 1) ?sizes (replicate (unat (?n - 1)) 0)"
    using ne1 n1 fits
    by (simp add: arrange_complexity_def resize_def Let_def
        arrange_layers_perceptrons_numbers_map [OF mx len])
  also have "\<dots> = Inr (take (length (layers m) - 1) ?sizes)"
    using n1 by (simp add: arrange_complexity_loop_copies)
  also have "take (length (layers m) - 1) ?sizes = butlast ?sizes"
    by (simp add: butlast_conv_take)
  finally show "arrange_complexity mx m = Inr (butlast ?sizes)" .
qed

lemma arrange_complexity_no_layers:
  assumes "layers m = []"
  shows "unat (get_layers_number m - 1) = 2 ^ 64 - 1"
    and "arrange_complexity mx m =
      Inl (if mx < 2 ^ 64 - 1 then LengthError else OutOfRange)"
proof -
  have n: "get_layers_number m = 0"
    using assms by (simp add: get_layers_number_def)
  then show u: "unat (get_layers_number m - 1) = 2 ^ 64 - 1"
    by (simp add: unsigned_minus_1_eq_mask mask_eq_exp_minus_1)
  show "arrange_complexity mx m =
      Inl (if mx < 2 ^ 64 - 1 then LengthError else OutOfRange)"
  proof (cases "mx < 2 ^ 64 - 1")
    case True
    then show ?thesis
      using n u by (simp add: arrange_complexity_def resize_def)
  next
    case False
    have "arrange_layers_perceptrons_numbers mx m = Inr []"
      using n assms
      by (simp add: arrange_layers_perceptrons_numbers_def Vector_def
          arrange_layers_perceptrons_numbers_loop.simps [of 0 0])
    moreover have "(0 :: size_t) < - 1"
      by (simp add: word_less_nat_alt unsigned_minus_1_eq_mask mask_eq_exp_minus_1)
    ultimately show ?thesis
      using False n u
      by (simp add: arrange_complexity_def resize_def
          arrange_complexity_loop.simps [of 0 "- 1"])
  qed
qed


text \<open>
  Claim C9. \<open>arrange_complexity\<close> returns the empty vector when the network has
  exactly one layer. With two or more layers (and vectors of that length allocatable)
  it returns the sizes of all layers but the last; the length is \<open>layers_number - 1\<close>
  in \<open>size_t\<close> arithmetic. With no layer that subtraction wraps around to
  \<open>2^64 - 1\<close>, the length asked of \<open>resize\<close>, and the call does not return a
  vector: \<open>resize\<close> fails, or, were such a vector allocatable, the first pass of
  the loop reads \<open>layers_size[0]\<close> of an empty vector.
\<close>

theorem arrange_complexity_sizes:
  "(length (layers m) = 1 \<longrightarrow> arrange_complexity mx m = Inr []) \<and>
   (2 \<le> length (layers m) \<and> length (layers m) \<le> mx \<and> length (layers m) < 2 ^ 64 \<longrightarrow>
      arrange_complexity mx m = Inr (butlast (map get_perceptrons_number (layers m))) \<and>
      length (butlast (map get_perceptrons_number (layers m))) = unat (get_layers_number m - 1) \<and>
      unat (get_layers_number m - 1) = length (layers m) - 1) \<and>
   (layers m = [] \<longrightarrow>
      unat (get_layers_number m - 1) = 2 ^ 64 - 1 \<and>
      arrange_complexity mx m = Inl (if mx < 2 ^ 64 - 1 then LengthError else OutOfRange))"
proof (intro conjI impI)
  assume "length (layers m) = 1"
  then show "arrange_complexity mx m = Inr []"
    by (rule arrange_complexity_one_layer)
next
  assume h: "2 \<le> length (layers m) \<and> length (layers m) \<le> mx \<and> length (layers m) < 2 ^ 64"
  then have two: "2 \<le> length (layers m)" and mx: "length (layers m) \<le> mx"
    and len: "length (layers m) < 2 ^ 64"
    by blast+
  show "arrange_complexity mx m = Inr (butlast (map get_perceptrons_number (layers m)))"
    by (rule arrange_complexity_hidden_layers(1) [OF two mx len])
  show n1: "unat (get_layers_number m - 1) = length (layers m) - 1"
    by (rule arrange_complexity_hidden_layers(2) [OF two mx len])
  show "length (butlast (map get_perceptrons_number (layers m))) = unat (get_layers_number m - 1)"
    by (simp add: n1)
next
  assume e: "layers m = []"
  then show "unat (get_layers_number m - 1) = 2 ^ 64 - 1"
    by (rule arrange_complexity_no_layers(1))
  from e show "arrange_complexity mx m =
      Inl (if mx < 2 ^ 64 - 1 then LengthError else OutOfRange)"
    by (rule arrange_complexity_no_layers(2))
qed

text \<open>
  The theorem at a network of one layer, at one of three layers (sizes 3, 5, 2) and at
  the empty network, with \<open>max_size() = 2^60\<close>.
\<close>

theorem arrange_complexity_sizes_witness:
  "arrange_complexity (2 ^ 60)
     \<lparr>layers = [\<lparr>get_inputs_number = 4, get_perceptrons_number = 3\<rparr>], display = True\<rparr>
     = Inr [] \<and>
   arrange_complexity (2 ^ 60)
     \<lparr>layers = [\<lparr>get_inputs_number = 4, get_perceptrons_number = 3\<rparr>,
                \<lparr>get_inputs_number = 3, get_perceptrons_number = 5\<rparr>,
                \<lparr>get_inputs_number = 5, get_perceptrons_number = 2\<rparr>], display = True\<rparr>
     = Inr [3, 5] \<and>
   unat (get_layers_number \<lparr>layers = [], display = True\<rparr> - 1) = 18446744073709551615 \<and>
   arrange_complexity (2 ^ 60) \<lparr>layers = [], display = True\<rparr> = Inl LengthError"
  using
    arrange_complexity_sizes [where mx = "2 ^ 60" and
      m = "\<lparr>layers = [\<lparr>get_inputs_number = 4, get_perceptrons_number = 3\<rparr>], display = True\<rparr>"]
    arrange_complexity_sizes [where mx = "2 ^ 60" and
      m = "\<lparr>layers = [\<lparr>get_inputs_number = 4, get_perceptrons_number = 3\<rparr>,
                \<lparr>get_inputs_number = 3, get_perceptrons_number = 5\<rparr>,
                \<lparr>get_inputs_number = 5, get_perceptrons_number = 2\<rparr>], display = True\<rparr>"]
    arrange_complexity_sizes [where mx = "2 ^ 60" and m = "\<lparr>layers = [], display = True\<rparr>"]
  by simp

section \<open>LongShortTermMemoryLayer: the worked scenario\<close>

text \<open>
  Bounds of \<open>exp (- 2)\<close> from twelve terms of its Maclaurin series, and of the
  logistic function at 2 from them.
\<close>

lemma exp_minus_2_bounds: "1353 / 10000 \<le> exp (- 2 :: real) \<and> exp (- 2 :: real) \<le> 1355 / 10000"
proof -
  obtain t :: real where t: "\<bar>t\<bar> \<le> \<bar>- 2\<bar>"
    and e: "exp (- 2) = (\<Sum>m<12. ((- 2) ^ m) / fact m) + (exp t / fact 12) * (- 2) ^ 12"
    using Maclaurin_exp_le [of "- 2" 12] by blast
  have s: "(\<Sum>m<12. ((- 2 :: real) ^ m) / fact m) = 21101 / 155925"
    by (simp add: lessThan_nat_numeral lessThan_Suc fact_numeral eval_nat_numeral)
  have "exp 2 = exp 1 * exp (1 :: real)"
    by (simp flip: exp_add)
  moreover have "exp (1 :: real) \<le> 3"
    by (rule exp_le)
  ultimately have e2: "exp (2 :: real) \<le> 9"
    using mult_mono [of "exp 1" 3 "exp 1" "3 :: real"] by simp
  from t have "t \<le> 2"
    by simp
  then have "exp t \<le> exp 2"
    by (simp only: exp_le_cancel_iff)
  with e2 have up: "exp t \<le> 9"
    by linarith
  have f: "(exp t / fact 12) * (- 2) ^ 12 = exp t * (4 / 467775)"
    by (simp add: fact_numeral)
  from e s f have "exp (- 2 :: real) = 21101 / 155925 + exp t * (4 / 467775)"
    by simp
  with up exp_ge_zero [of t] show ?thesis
    by linarith
qed

lemma logistic_2_bounds:
  "88066 / 100000 \<le> activation Logistic 2 \<and> activation Logistic 2 \<le> 8809 / 10000"
proof -
  let ?e = "exp (- 2 :: real)"
  have lo: "1353 / 10000 \<le> ?e" and up: "?e \<le> 1355 / 10000"
    using exp_minus_2_bounds by simp_all
  have pos: "0 < 1 + ?e"
    by (simp add: add_pos_pos)
  from up have "88066 / 100000 * (1 + ?e) \<le> 1"
    by simp
  with pos have "88066 / 100000 \<le> 1 / (1 + ?e)"
    by (simp only: pos_le_divide_eq)
  moreover from lo have "1 \<le> 8809 / 10000 * (1 + ?e)"
    by simp
  with pos have "1 / (1 + ?e) \<le> 8809 / 10000"
    by (simp only: pos_divide_le_eq)
  ultimately show ?thesis
    by simp
qed

text \<open>
  Claim C1. On the single input \<open>[2.0]\<close> the scenario's forward propagation gives
  forget, input and output gates equal to \<open>sigmoid 2\<close>, the state activation 2, the
  cell state \<open>sigmoid 2 * 2\<close> and the hidden state
  \<open>sigmoid 2 * (sigmoid 2 * 2)\<close>; these are within \<open>0.001\<close> of \<open>0.8808\<close>,
  \<open>1.7616\<close> and \<open>1.5521\<close>.
\<close>

theorem forward_propagate_scenario:
  "forward_propagate scenario_layer [[2]] =
     Inr [\<lparr>forget_activations = [activation Logistic 2],
           input_activations = [activation Logistic 2],
           state_activations = [2],
           output_activations = [activation Logistic 2],
           cell_state = [activation Logistic 2 * 2],
           hidden_state = [activation Logistic 2 * (activation Logistic 2 * 2)]\<rparr>] \<and>
   \<bar>activation Logistic 2 - 8808 / 10000\<bar> \<le> 1 / 1000 \<and>
   \<bar>activation Logistic 2 * 2 - 17616 / 10000\<bar> \<le> 1 / 1000 \<and>
   \<bar>activation Logistic 2 * (activation Logistic 2 * 2) - 15521 / 10000\<bar> \<le> 1 / 1000"
proof (intro conjI)
  let ?g = "activation Logistic 2"
  show "forward_propagate scenario_layer [[2]] =
     Inr [\<lparr>forget_activations = [?g], input_activations = [?g], state_activations = [2],
           output_activations = [?g], cell_state = [?g * 2],
           hidden_state = [?g * (?g * 2)]\<rparr>]"
    by (simp add: forward_propagate_def scenario_layer_def get_inputs_number_lstm_def
        recurrent_step_def calculate_forget_combinations_def calculate_input_combinations_def
        calculate_state_combinations_def calculate_output_combinations_def combination_def
        get_neurons_number_def vector_matrix_def calculate_activations_def
        calculate_recurrent_activations_def Let_def)
  have lo: "88066 / 100000 \<le> ?g" and up: "?g \<le> 8809 / 10000"
    using logistic_2_bounds by blast+
  from lo up show "\<bar>?g - 8808 / 10000\<bar> \<le> 1 / 1000"
    by linarith
  from lo up show "\<bar>?g * 2 - 17616 / 10000\<bar> \<le> 1 / 1000"
    by linarith
  have "88066 / 100000 * (88066 / 100000) \<le> ?g * ?g"
    using lo by (intro mult_mono) simp_all
  moreover have "?g * ?g \<le> 8809 / 10000 * (8809 / 10000)"
    using lo up by (intro mult_mono) simp_all
  ultimately show "\<bar>?g * (?g * 2) - 15521 / 10000\<bar> \<le> 1 / 1000"
    by (simp add: abs_le_iff)
qed

end
